theory Spec2Isabelle
  imports Complex_Main "HOL-Library.Monad_Syntax"
begin

section \<open>Travel Route Recorder: data model\<close>

text \<open>
  The component \<open>AppComponent\<close> and the service \<open>GeminiService\<close> of the Travel Route
  Recorder, as functions on an explicit state.  A JavaScript \<open>number\<close> is a \<open>real\<close>,
  a \<open>string\<close> is a \<open>string\<close>, \<open>null\<close> and \<open>undefined\<close> are \<open>None\<close>.  Whatever the code
  obtains from outside (the answer of the AI service, generated ids, random draws, the
  clock, the outcome of a local-storage write) is a parameter of the function that
  asks for it.
\<close>

subsection \<open>Records of the source\<close>

text \<open>\<open>LocationCoordinate\<close> of gemini.service.ts: an entry of the resolver's answer.\<close>

record LocationCoordinate =
  lc_name :: string
  lc_lat :: "real option"
  lc_lng :: "real option"

record ValidCoordinate =
  vc_name :: string
  vc_lat :: real
  vc_lng :: real

record Stamp =
  st_id :: string
  st_name :: string
  st_rotation :: real
  st_color :: string
  st_date :: string
  st_time :: string
  st_imageUrl :: "string option"
  st_description :: "string option"
  st_selected :: bool

datatype MapHeight = small | medium | large

record StyleConfig =
  sc_style :: string
  sc_color :: string
  sc_weight :: real
  sc_customIconUrl :: "string option"
  sc_mapHeight :: "MapHeight option"

record SavedTrip =
  trip_id :: string
  trip_name :: string
  trip_date :: real
  trip_locations :: string
  trip_coordinates :: "ValidCoordinate list"
  trip_stamps :: "Stamp list"
  trip_styleConfig :: "StyleConfig option"

text \<open>
  A thrown value: its message and the two properties the handlers read (\<open>status\<close> and
  \<open>code\<close>), which a \<open>TypeError\<close>, a \<open>SyntaxError\<close> or an \<open>Error\<close> of the code's own
  does not have.
\<close>

datatype js_error =
  JsError (err_message: string) (err_status: "string option") (err_code: "real option")

definition TypeError :: js_error where
  "TypeError = JsError ''TypeError'' None None"

definition SyntaxError :: js_error where
  "SyntaxError = JsError ''SyntaxError'' None None"

definition QuotaExceededError :: js_error where
  "QuotaExceededError = JsError ''QuotaExceededError'' None None"

definition Error :: "string \<Rightarrow> js_error" where
  "Error msg = JsError msg None None"

text \<open>
  The signals of \<open>AppComponent\<close>, and the browser around it: the value stored under
  the key \<open>travel_route_trips\<close> of local storage (the list that was serialised, \<open>None\<close>
  while the key is absent), the messages shown by \<open>alert\<close> and the names of the files
  offered for download, oldest first.  An entry of \<open>missingLocations\<close> is \<open>None\<close> where
  the code pushes \<open>undefined\<close>.  \<open>mapStyle\<close> is the string held at run time: \<open>loadTrip\<close>
  stores any string there through \<open>as any\<close>.
\<close>

record app =
  locationInput :: string
  isLoading :: bool
  isExporting :: bool
  isGeneratingIcon :: bool
  mapStyle :: string
  routeColor :: string
  routeWeight :: real
  customIconUrl :: "string option"
  mapHeight :: MapHeight
  routeCoordinates :: "ValidCoordinate list"
  missingLocations :: "string option list"
  stamps :: "Stamp list"
  statusMessage :: string
  savedTrips :: "SavedTrip list"
  tripToDelete :: "string option"
  editingStamp :: "Stamp option"
  isGeneratingStamp :: bool
  stampPrompt :: string
  storage :: "SavedTrip list option"
  alerts :: "string list"
  downloads :: "string list"

definition initial_app :: app where
  "initial_app =
     \<lparr> locationInput = [], isLoading = False, isExporting = False, isGeneratingIcon = False,
       mapStyle = ''standard'', routeColor = ''#4f46e5'', routeWeight = 4,
       customIconUrl = None, mapHeight = small, routeCoordinates = [],
       missingLocations = [], stamps = [], statusMessage = ''Ready to map your journey.'',
       savedTrips = [], tripToDelete = None, editingStamp = None,
       isGeneratingStamp = False, stampPrompt = [], storage = None, alerts = [],
       downloads = [] \<rparr>"

subsection \<open>Strings\<close>

text \<open>
  A \<open>char\<close> is a code unit below 256.  \<open>String.prototype.trim\<close> strips the white space
  of that range (tab, line feed, vertical tab, form feed, carriage return, space and
  the no-break space U+00A0); the white space above it (U+1680, U+2000 to U+200A,
  U+2028, U+2029, U+202F, U+205F, U+3000, U+FEFF) is not in a \<open>string\<close> here.  Then
  \<open>split(',')\<close> and the decimal form of a length.
\<close>

definition is_space :: "char \<Rightarrow> bool" where
  "is_space c = (of_char c \<in> {9, 10, 11, 12, 13, 32, 160 :: nat})"

definition trim :: "string \<Rightarrow> string" where
  "trim s = rev (dropWhile is_space (rev (dropWhile is_space s)))"

fun split_on :: "char \<Rightarrow> string \<Rightarrow> string list" where
  "split_on d [] = [[]]"
| "split_on d (c # cs) =
     (if c = d then [] # split_on d cs
      else (case split_on d cs of
              [] \<Rightarrow> [[c]]
            | w # ws \<Rightarrow> (c # w) # ws))"

fun show_nat :: "nat \<Rightarrow> string" where
  "show_nat n =
     (if n < 10 then [char_of (48 + n)]
      else show_nat (n div 10) @ [char_of (48 + n mod 10)])"

declare show_nat.simps [simp del]

section \<open>GeminiService\<close>

text \<open>
  \<open>getCoordinatesForLocations\<close>.  The parameter \<open>ai\<close> is the call of the model followed
  by \<open>JSON.parse\<close>: for the list of names sent it throws, or gives the \<open>waypoints\<close>
  property of the parsed answer (\<open>None\<close> when it is missing).  The code returns
  \<open>json.waypoints || []\<close> and rethrows what it caught; it does not compare the answer
  with the list it sent.
\<close>

definition getCoordinatesForLocations ::
  "(string list \<Rightarrow> js_error + LocationCoordinate list option) \<Rightarrow> string list
     \<Rightarrow> js_error + LocationCoordinate list" where
  "getCoordinatesForLocations ai locations =
     (case ai locations of
        Inl e \<Rightarrow> Inl e
      | Inr waypoints \<Rightarrow> Inr (case waypoints of None \<Rightarrow> [] | Some ws \<Rightarrow> ws))"

section \<open>AppComponent: route generation\<close>

text \<open>
  The test of step 3 of \<open>onGenerateRoute\<close>:
  \<open>item.lat !== null && item.lng !== null && item.lat !== 0 && item.lng !== 0\<close>.
\<close>

definition is_valid_item :: "LocationCoordinate \<Rightarrow> bool" where
  "is_valid_item item =
     (lc_lat item \<noteq> None \<and> lc_lng item \<noteq> None \<and> lc_lat item \<noteq> Some 0 \<and> lc_lng item \<noteq> Some 0)"

text \<open>
  \<open>item.name || locations[index]\<close>: the name of the entry unless it is the empty string,
  else the input name at the same index, \<open>undefined\<close> past the end of the input.
\<close>

definition missing_name :: "string list \<Rightarrow> nat \<Rightarrow> LocationCoordinate \<Rightarrow> string option" where
  "missing_name locations index item =
     (if lc_name item \<noteq> [] then Some (lc_name item)
      else if index < length locations then Some (locations ! index)
      else None)"

text \<open>The object literal \<open>{ name: item.name, lat: item.lat, lng: item.lng }\<close>.\<close>

definition to_valid :: "LocationCoordinate \<Rightarrow> ValidCoordinate" where
  "to_valid item =
     \<lparr> vc_name = lc_name item, vc_lat = the (lc_lat item), vc_lng = the (lc_lng item) \<rparr>"

text \<open>One round of the \<open>forEach\<close> of step 3, on the two arrays it pushes to.\<close>

definition filter_step ::
  "string list \<Rightarrow> nat \<times> LocationCoordinate
     \<Rightarrow> ValidCoordinate list \<times> string option list
     \<Rightarrow> ValidCoordinate list \<times> string option list" where
  "filter_step locations p acc =
     (case p of (index, item) \<Rightarrow>
        (case acc of (validCoords, missing) \<Rightarrow>
           if is_valid_item item
           then (validCoords @ [to_valid item], missing)
           else (validCoords, missing @ [missing_name locations index item])))"

definition partition_coords ::
  "string list \<Rightarrow> LocationCoordinate list \<Rightarrow> ValidCoordinate list \<times> string option list" where
  "partition_coords locations rawCoords =
     fold (filter_step locations) (enumerate 0 rawCoords) ([], [])"

text \<open>
  \<open>createVisualStamps\<close>.  \<open>gen_id i\<close> is what \<open>generateId()\<close> returns for the stamp of
  index \<open>i\<close>, \<open>rnd i\<close> the draw of \<open>Math.random()\<close> for its rotation and \<open>today\<close> the
  string of \<open>new Date().toLocaleDateString()\<close>.  The product \<open>rnd i * 30\<close> is exact
  here and rounded to a double in the code, so the two can differ by one degree for a
  draw next to a multiple of 1/30; both stay between -15 and 14.
\<close>

definition colors :: "string list" where
  "colors = [''border-indigo-600 text-indigo-800'', ''border-rose-600 text-rose-800'',
             ''border-emerald-600 text-emerald-800'', ''border-amber-600 text-amber-800'',
             ''border-blue-600 text-blue-800'']"

definition new_stamp :: "(nat \<Rightarrow> string) \<Rightarrow> (nat \<Rightarrow> real) \<Rightarrow> string \<Rightarrow> nat \<times> ValidCoordinate \<Rightarrow> Stamp" where
  "new_stamp gen_id rnd today p =
     (case p of (i, c) \<Rightarrow>
        \<lparr> st_id = ''stamp-'' @ gen_id i,
          st_name = vc_name c,
          st_rotation = of_int \<lfloor>rnd i * 30\<rfloor> - 15,
          st_color = colors ! (i mod length colors),
          st_date = today,
          st_time = ''12:00'',
          st_imageUrl = None,
          st_description = Some ''Classic ink stamp'',
          st_selected = False \<rparr>)"

definition createVisualStamps ::
  "(nat \<Rightarrow> string) \<Rightarrow> (nat \<Rightarrow> real) \<Rightarrow> string \<Rightarrow> ValidCoordinate list \<Rightarrow> app \<Rightarrow> app" where
  "createVisualStamps gen_id rnd today coords s =
     s\<lparr> stamps := map (new_stamp gen_id rnd today) (enumerate 0 coords) \<rparr>"

text \<open>
  The \<open>try\<close> block of \<open>onGenerateRoute\<close>: the state it leaves, or the thrown value with
  the state at the throw.
\<close>

definition parse_locations :: "string \<Rightarrow> string list" where
  "parse_locations rawInput = filter (\<lambda>w. w \<noteq> []) (map trim (split_on CHR '','' rawInput))"

definition route_try ::
  "(string list \<Rightarrow> js_error + LocationCoordinate list option) \<Rightarrow> (nat \<Rightarrow> string)
     \<Rightarrow> (nat \<Rightarrow> real) \<Rightarrow> string \<Rightarrow> string \<Rightarrow> app \<Rightarrow> (js_error \<times> app) + app" where
  "route_try ai gen_id rnd today rawInput s =
     (let locations = parse_locations rawInput in
      case getCoordinatesForLocations ai locations of
        Inl e \<Rightarrow> Inl (e, s)
      | Inr rawCoords \<Rightarrow>
          (case partition_coords locations rawCoords of (validCoords, missing) \<Rightarrow>
             let s1 = s\<lparr> missingLocations := missing \<rparr> in
             if validCoords = []
             then Inr (s1\<lparr> statusMessage := ''Could not find any of those locations.'' \<rparr>)
             else
               let s2 = s1\<lparr> routeCoordinates := validCoords \<rparr>;
                   s3 = (if missing \<noteq> []
                         then s2\<lparr> statusMessage := ''Found '' @ show_nat (length validCoords)
                                  @ '' places. '' @ show_nat (length missing) @ '' missing.'' \<rparr>
                         else s2\<lparr> statusMessage := ''Route mapped!'' \<rparr>)
               in Inr (createVisualStamps gen_id rnd today validCoords s3)))"

definition route_catch :: "js_error \<Rightarrow> app \<Rightarrow> app" where
  "route_catch error s =
     (if err_status error = Some ''RESOURCE_EXHAUSTED'' then
        s\<lparr> statusMessage := ''AI Quota Exceeded. Please try again later.'' \<rparr>
      else if err_code error = Some 429 then
        s\<lparr> statusMessage := ''AI Quota Exceeded. Please try again later.'' \<rparr>
      else
        s\<lparr> statusMessage := ''Something went wrong. Please check your internet connection.'' \<rparr>)"

definition onGenerateRoute ::
  "(string list \<Rightarrow> js_error + LocationCoordinate list option) \<Rightarrow> (nat \<Rightarrow> string)
     \<Rightarrow> (nat \<Rightarrow> real) \<Rightarrow> string \<Rightarrow> app \<Rightarrow> app" where
  "onGenerateRoute ai gen_id rnd today s =
     (let rawInput = trim (locationInput s) in
      if rawInput = [] then s
      else
        let s1 = s\<lparr> isLoading := True,
                    statusMessage := ''Tracing your route on the globe...'',
                    routeCoordinates := [],
                    missingLocations := [],
                    stamps := [],
                    customIconUrl := None \<rparr>;
            s2 = (case route_try ai gen_id rnd today rawInput s1 of
                    Inl (error, s') \<Rightarrow> route_catch error s'
                  | Inr s' \<Rightarrow> s')
        in s2\<lparr> isLoading := False \<rparr>)"

section \<open>GeminiService: images\<close>

text \<open>
  An element of \<open>generatedImages\<close>: without an \<open>image\<close>, or with an \<open>image\<close> and its
  \<open>imageBytes\<close> (\<open>None\<close> for \<open>undefined\<close>).
\<close>

datatype generated_image = NoImage | Image "string option"

text \<open>
  \<open>generateResponse.generatedImages[0].image.imageBytes\<close> inside the template literal:
  reading element 0 of an empty answer, or the bytes of an element without \<open>image\<close>,
  throws a \<open>TypeError\<close>; the template prints bytes that are \<open>undefined\<close> as
  \<open>undefined\<close>.
\<close>

definition first_image_uri :: "generated_image list \<Rightarrow> js_error + string" where
  "first_image_uri generatedImages =
     (case generatedImages of
        [] \<Rightarrow> Inl TypeError
      | NoImage # _ \<Rightarrow> Inl TypeError
      | Image bytes # _ \<Rightarrow>
          Inr (''data:image/jpeg;base64,''
                 @ (case bytes of None \<Rightarrow> ''undefined'' | Some generatedBytes \<Rightarrow> generatedBytes)))"

text \<open>
  \<open>generateCustomIcon\<close>.  \<open>analyze mimeType base64Image\<close> is the first call of the
  model (its \<open>text\<close>, \<open>None\<close> for \<open>undefined\<close>, or what it throws) and \<open>generate subject\<close>
  the call of the image model with the prompt built from the subject.  \<open>icon_try\<close> is
  the \<open>try\<close> block, \<open>generateCustomIcon\<close> adds the \<open>catch\<close>.
\<close>

definition icon_try ::
  "(string \<Rightarrow> string \<Rightarrow> js_error + string option) \<Rightarrow> (string \<Rightarrow> js_error + generated_image list)
     \<Rightarrow> string \<Rightarrow> string \<Rightarrow> js_error + string" where
  "icon_try analyze generate base64Image mimeType =
     (case analyze mimeType base64Image of
        Inl e \<Rightarrow> Inl e
      | Inr text \<Rightarrow>
          (case text of
             None \<Rightarrow> Inl TypeError
           | Some txt \<Rightarrow>
               (case generate (trim txt) of
                  Inl e \<Rightarrow> Inl e
                | Inr generatedImages \<Rightarrow> first_image_uri generatedImages)))"

definition generateCustomIcon ::
  "(string \<Rightarrow> string \<Rightarrow> js_error + string option) \<Rightarrow> (string \<Rightarrow> js_error + generated_image list)
     \<Rightarrow> string \<Rightarrow> string \<Rightarrow> js_error + string" where
  "generateCustomIcon analyze generate base64Image mimeType =
     (case icon_try analyze generate base64Image mimeType of
        Inl e \<Rightarrow> Inr (''data:'' @ mimeType @ '';base64,'' @ base64Image)
      | Inr uri \<Rightarrow> Inr uri)"

text \<open>
  \<open>generateStampImage\<close>: \<open>paint locationName styleDescription\<close> is the call of the image
  model with the prompt built from the two strings; the \<open>catch\<close> rethrows.
\<close>

definition generateStampImage ::
  "(string \<Rightarrow> string \<Rightarrow> js_error + generated_image list) \<Rightarrow> string \<Rightarrow> string \<Rightarrow> js_error + string" where
  "generateStampImage paint locationName styleDescription =
     (case paint locationName styleDescription of
        Inl e \<Rightarrow> Inl e
      | Inr generatedImages \<Rightarrow> first_image_uri generatedImages)"

section \<open>AppComponent: custom icon\<close>

text \<open>
  \<open>base64Full.match(/^data:(.+);base64,(.+)$/)\<close>: both groups are non-empty, \<open>.\<close> matches
  no line terminator, and the first group is greedy, so it ends at the last
  \<open>;base64,\<close> that leaves a non-empty rest.
\<close>

definition is_line_terminator :: "char \<Rightarrow> bool" where
  "is_line_terminator c = (of_char c \<in> {10, 13 :: nat})"

definition match_data_url :: "string \<Rightarrow> (string \<times> string) option" where
  "match_data_url base64Full =
     (if take 5 base64Full = ''data:'' \<and> \<not> list_ex is_line_terminator base64Full then
        (let r = drop 5 base64Full;
             ks = filter (\<lambda>k. take 8 (drop k r) = '';base64,'' \<and> k + 8 < length r)
                    (rev [1..<length r])
         in case ks of
              [] \<Rightarrow> None
            | k # _ \<Rightarrow> Some (take k r, drop (k + 8) r))
      else None)"

text \<open>
  A file of the input element: its size in bytes and what \<open>readAsDataURL\<close> does with it:
  it throws at once, it fails later (\<open>onload\<close> never runs), or \<open>onload\<close> runs with the
  result.
\<close>

datatype read_result = ReadThrows js_error | ReadFails | ReadDone string

record upload_file =
  file_size :: nat
  file_read :: read_result

text \<open>
  The \<open>async\<close> callback \<open>reader.onload\<close> of \<open>onUploadIcon\<close>.  What it throws rejects the
  promise it returns, which nothing awaits.
\<close>

definition upload_onload ::
  "(string \<Rightarrow> string \<Rightarrow> js_error + string option) \<Rightarrow> (string \<Rightarrow> js_error + generated_image list)
     \<Rightarrow> string \<Rightarrow> app \<Rightarrow> (js_error \<times> app) + app" where
  "upload_onload analyze generate base64Full s =
     (case match_data_url base64Full of
        None \<Rightarrow> Inl (Error ''Invalid image format'', s)
      | Some (mimeType, base64Data) \<Rightarrow>
          (case generateCustomIcon analyze generate base64Data mimeType of
             Inl e \<Rightarrow> Inl (e, s)
           | Inr newIconUrl \<Rightarrow>
               Inr (s\<lparr> customIconUrl := Some newIconUrl,
                       statusMessage := ''Custom icon applied!'',
                       isGeneratingIcon := False \<rparr>)))"

definition onUploadIcon ::
  "(string \<Rightarrow> string \<Rightarrow> js_error + string option) \<Rightarrow> (string \<Rightarrow> js_error + generated_image list)
     \<Rightarrow> upload_file list option \<Rightarrow> app \<Rightarrow> app" where
  "onUploadIcon analyze generate files s =
     (case files of
        None \<Rightarrow> s
      | Some [] \<Rightarrow> s
      | Some (file # _) \<Rightarrow>
          if file_size file > 5 * 1024 * 1024 then
            s\<lparr> alerts := alerts s @ [''File is too large. Please upload an image under 5MB.''] \<rparr>
          else
            (let s1 = s\<lparr> isGeneratingIcon := True,
                         statusMessage := ''Designing your custom icon...'' \<rparr>
             in case file_read file of
                  ReadThrows e \<Rightarrow>
                    s1\<lparr> statusMessage := ''Failed to process icon. Try another image.'',
                        isGeneratingIcon := False \<rparr>
                | ReadFails \<Rightarrow> s1
                | ReadDone base64Full \<Rightarrow>
                    (case upload_onload analyze generate base64Full s1 of
                       Inl (e, s') \<Rightarrow> s'
                     | Inr s' \<Rightarrow> s')))"

section \<open>AppComponent: stamps\<close>

definition generateAiStamp ::
  "(string \<Rightarrow> string \<Rightarrow> js_error + generated_image list) \<Rightarrow> app \<Rightarrow> app" where
  "generateAiStamp paint s =
     (case editingStamp s of
        None \<Rightarrow> s
      | Some current \<Rightarrow>
          if stampPrompt s = [] then s
          else
            (let s1 = s\<lparr> isGeneratingStamp := True \<rparr>;
                 s2 = (case generateStampImage paint (st_name current) (stampPrompt s1) of
                         Inr imageUrl \<Rightarrow>
                           s1\<lparr> editingStamp :=
                                 Some (current\<lparr> st_imageUrl := Some imageUrl,
                                                st_description := Some (stampPrompt s1) \<rparr>) \<rparr>
                       | Inl e \<Rightarrow>
                           s1\<lparr> alerts := alerts s1
                                 @ [''Failed to generate stamp. Quota may be exceeded.''] \<rparr>)
             in s2\<lparr> isGeneratingStamp := False \<rparr>))"

text \<open>\<open>name.replace(/\s+/g, '_')\<close>: every run of white space becomes one underscore.\<close>

function replace_spaces :: "string \<Rightarrow> string" where
  "replace_spaces [] = []"
| "replace_spaces (c # cs) =
     (if is_space c then CHR ''_'' # replace_spaces (dropWhile is_space cs)
      else c # replace_spaces cs)"
  by pat_completeness auto
termination
  by (relation "measure length") (auto simp: length_dropWhile_le less_Suc_eq_le)

text \<open>
  The loop of \<open>downloadSelectedStamps\<close>.  \<open>present id\<close> says whether
  \<open>document.getElementById(id)\<close> finds an element, and \<open>render stamp\<close> is \<open>html2canvas\<close>
  followed by \<open>canvas.toDataURL\<close>: the image, or what was thrown.
\<close>

fun download_loop ::
  "(string \<Rightarrow> bool) \<Rightarrow> (Stamp \<Rightarrow> js_error + string) \<Rightarrow> Stamp list \<Rightarrow> app \<Rightarrow> (js_error \<times> app) + app" where
  "download_loop present render [] s = Inr s"
| "download_loop present render (stamp # rest) s =
     (if present (st_id stamp) then
        (case render stamp of
           Inl e \<Rightarrow> Inl (e, s)
         | Inr href \<Rightarrow>
             download_loop present render rest
               (s\<lparr> downloads := downloads s
                     @ [''Travel_Stamp_'' @ replace_spaces (st_name stamp) @ ''.png''] \<rparr>))
      else download_loop present render rest s)"

definition downloadSelectedStamps ::
  "(string \<Rightarrow> bool) \<Rightarrow> (Stamp \<Rightarrow> js_error + string) \<Rightarrow> app \<Rightarrow> app" where
  "downloadSelectedStamps present render s =
     (let selected = filter st_selected (stamps s) in
      if selected = [] then
        s\<lparr> alerts := alerts s @ [''Please select at least one stamp to download.''] \<rparr>
      else
        (let s1 = s\<lparr> isExporting := True \<rparr>;
             s2 = (case download_loop present render selected s1 of
                     Inl (e, s') \<Rightarrow> s'\<lparr> alerts := alerts s' @ [''Failed to download some stamps.''] \<rparr>
                   | Inr s' \<Rightarrow> s')
         in s2\<lparr> isExporting := False \<rparr>))"

text \<open>
  \<open>exportMapImage\<close>, without the map widget: \<open>present\<close> says whether the element
  \<open>map-card\<close> exists, \<open>render\<close> is \<open>html2canvas\<close> followed by the \<open>then\<close> callback up to
  \<open>canvas.toDataURL\<close> (the image, or what rejected the promise), and \<open>now\<close> is the text
  of \<open>Date.now()\<close>.
\<close>

definition exportMapImage :: "bool \<Rightarrow> js_error + string \<Rightarrow> string \<Rightarrow> app \<Rightarrow> app" where
  "exportMapImage present render now s =
     (if present then
        (let s1 = s\<lparr> isExporting := True \<rparr>
         in case render of
              Inr png \<Rightarrow>
                s1\<lparr> downloads := downloads s1 @ [''travel-route-map-'' @ now @ ''.png''],
                    isExporting := False \<rparr>
            | Inl err \<Rightarrow>
                s1\<lparr> isExporting := False,
                    alerts := alerts s1 @ [''Could not generate image. Please try again.''] \<rparr>)
      else s)"

section \<open>AppComponent: the trip library\<close>

text \<open>
  \<open>persistTrips\<close>: \<open>localStorage.setItem\<close> stores the list or throws; \<open>fits trips\<close> says
  whether the store takes that list.
\<close>

definition persistTrips ::
  "(SavedTrip list \<Rightarrow> bool) \<Rightarrow> SavedTrip list \<Rightarrow> app \<Rightarrow> (js_error \<times> app) + app" where
  "persistTrips fits trips s =
     (if fits trips then Inr (s\<lparr> storage := Some trips \<rparr>) else Inl (QuotaExceededError, s))"

text \<open>
  \<open>({...x})\<close>: a new object with the fields of \<open>x\<close>.  The records here are values, so the
  copy is the record itself.
\<close>

definition spread :: "'a \<Rightarrow> 'a" where
  "spread x = x"

text \<open>\<open>x || undefined\<close> and \<open>x || null\<close> on a string that may be absent.\<close>

definition or_null :: "string option \<Rightarrow> string option" where
  "or_null x = (case x of None \<Rightarrow> None | Some u \<Rightarrow> if u = [] then None else Some u)"

text \<open>
  \<open>saveTrip\<close>: \<open>new_id\<close> is what \<open>generateId()\<close> returns and \<open>now\<close> is \<open>Date.now()\<close>.
\<close>

definition newTrip :: "string \<Rightarrow> real \<Rightarrow> ValidCoordinate \<Rightarrow> app \<Rightarrow> SavedTrip" where
  "newTrip new_id now first s =
     \<lparr> trip_id = new_id,
       trip_name = vc_name first @ '' Trip'',
       trip_date = now,
       trip_locations = locationInput s,
       trip_coordinates = map spread (routeCoordinates s),
       trip_stamps = map spread (stamps s),
       trip_styleConfig =
         Some \<lparr> sc_style = mapStyle s,
                sc_color = routeColor s,
                sc_weight = routeWeight s,
                sc_customIconUrl = or_null (customIconUrl s),
                sc_mapHeight = Some (mapHeight s) \<rparr> \<rparr>"

definition saveTrip :: "(SavedTrip list \<Rightarrow> bool) \<Rightarrow> string \<Rightarrow> real \<Rightarrow> app \<Rightarrow> app" where
  "saveTrip fits new_id now s =
     (case routeCoordinates s of
        [] \<Rightarrow> s
      | first # _ \<Rightarrow>
          (let updatedTrips = newTrip new_id now first s # savedTrips s;
               s1 = s\<lparr> savedTrips := updatedTrips \<rparr>
           in case persistTrips fits updatedTrips s1 of
                Inr s2 \<Rightarrow> s2\<lparr> alerts := alerts s2 @ [''Trip saved to library!''] \<rparr>
              | Inl (e, s2) \<Rightarrow>
                  s2\<lparr> alerts := alerts s2
                        @ [''Storage Full! This trip is saved for this session, but will disappear on refresh. Please download the Data Config to save it permanently.''] \<rparr>))"

text \<open>
  \<open>loadTrip\<close> in its two parts: what runs at once, and the callback of \<open>setTimeout\<close>
  that runs 150 ms later.  \<open>loadTrip\<close> is the state once the callback has run.
\<close>

definition loadTrip_now :: "SavedTrip \<Rightarrow> app \<Rightarrow> app" where
  "loadTrip_now trip s =
     (let s1 = s\<lparr> routeCoordinates := [],
                  isGeneratingIcon := False,
                  isExporting := False,
                  statusMessage := ''Loading '' @ trip_name trip @ ''...'',
                  locationInput := trip_locations trip \<rparr>
      in case trip_styleConfig trip of
           Some cfg \<Rightarrow>
             s1\<lparr> mapStyle := sc_style cfg,
                 routeColor := sc_color cfg,
                 routeWeight := sc_weight cfg,
                 customIconUrl := or_null (sc_customIconUrl cfg),
                 mapHeight := (case sc_mapHeight cfg of None \<Rightarrow> small | Some h \<Rightarrow> h) \<rparr>
         | None \<Rightarrow>
             s1\<lparr> mapStyle := ''standard'',
                 routeColor := ''#4f46e5'',
                 routeWeight := 4,
                 customIconUrl := None,
                 mapHeight := small \<rparr>)"

definition loadTrip_timeout :: "SavedTrip \<Rightarrow> app \<Rightarrow> app" where
  "loadTrip_timeout trip s =
     s\<lparr> routeCoordinates := map spread (trip_coordinates trip),
        stamps := map spread (trip_stamps trip),
        missingLocations := [],
        statusMessage := ''Loaded trip: '' @ trip_name trip \<rparr>"

definition loadTrip :: "SavedTrip \<Rightarrow> app \<Rightarrow> app" where
  "loadTrip trip s = loadTrip_timeout trip (loadTrip_now trip s)"

text \<open>
  The same copies at the level of references.  An array of objects is a list of
  references into a store, of which the references below \<open>used\<close> are taken;
  \<open>xs.map(x => ({...x}))\<close> allocates, for every element in turn, a new object with the
  content of the old one.  A coordinate and a stamp have fields of primitive type only,
  so nothing is shared below the copy.  \<open>save_then_load_refs\<close> is the copy of \<open>saveTrip\<close>
  (from the active array into the saved trip) followed by the copy of \<open>loadTrip\<close> (from
  the saved trip into the active array).
\<close>

record 'a store =
  cell :: "nat \<Rightarrow> 'a"
  used :: nat

fun spread_each :: "nat list \<Rightarrow> 'a store \<Rightarrow> nat list \<times> 'a store" where
  "spread_each [] h = ([], h)"
| "spread_each (r # rs) h =
     (case spread_each rs (h\<lparr> cell := (cell h)(used h := cell h r), used := Suc (used h) \<rparr>) of
        (rs', h') \<Rightarrow> (used h # rs', h'))"

definition save_then_load_refs :: "nat list \<Rightarrow> 'a store \<Rightarrow> nat list \<times> nat list \<times> 'a store" where
  "save_then_load_refs active h =
     (case spread_each active h of
        (saved, h1) \<Rightarrow>
          (case spread_each saved h1 of
             (loaded, h2) \<Rightarrow> (saved, loaded, h2)))"

text \<open>
  The delete flow.  \<open>confirmDeleteTrip\<close> has no \<open>try\<close>: what \<open>persistTrips\<close> throws leaves
  the handler, with the state at the throw.
\<close>

definition requestDeleteTrip :: "string \<Rightarrow> app \<Rightarrow> app" where
  "requestDeleteTrip tripId s = s\<lparr> tripToDelete := Some tripId \<rparr>"

definition confirmDeleteTrip :: "(SavedTrip list \<Rightarrow> bool) \<Rightarrow> app \<Rightarrow> (js_error \<times> app) + app" where
  "confirmDeleteTrip fits s =
     (case or_null (tripToDelete s) of
        None \<Rightarrow> Inr s
      | Some idToDelete \<Rightarrow>
          (let updatedTrips = filter (\<lambda>t. trip_id t \<noteq> idToDelete) (savedTrips s);
               s1 = s\<lparr> savedTrips := updatedTrips \<rparr>
           in case persistTrips fits updatedTrips s1 of
                Inl (e, s2) \<Rightarrow> Inl (e, s2)
              | Inr s2 \<Rightarrow> Inr (s2\<lparr> tripToDelete := None \<rparr>)))"

definition cancelDeleteTrip :: "app \<Rightarrow> app" where
  "cancelDeleteTrip s = s\<lparr> tripToDelete := None \<rparr>"

section \<open>AppComponent: import\<close>

text \<open>A value of \<open>JSON.parse\<close>; \<open>JObj\<close> lists the properties of an object.\<close>

datatype jsval =
  JNull | JBool bool | JNum real | JStr string | JArr "jsval list" | JObj "(string \<times> jsval) list"

text \<open>
  Reading a property that is not one of a string or an array (\<open>coordinates\<close>, \<open>stamps\<close>):
  \<open>undefined\<close> (\<open>None\<close>) unless an object has it; on \<open>null\<close> a \<open>TypeError\<close>.
\<close>

fun get_prop :: "jsval \<Rightarrow> string \<Rightarrow> js_error + jsval option" where
  "get_prop JNull key = Inl TypeError"
| "get_prop (JObj props) key = Inr (map_of props key)"
| "get_prop v key = Inr None"

text \<open>\<open>!x\<close> is \<open>\<not> truthy x\<close>.\<close>

fun truthy :: "jsval option \<Rightarrow> bool" where
  "truthy None = False"
| "truthy (Some JNull) = False"
| "truthy (Some (JBool b)) = b"
| "truthy (Some (JNum x)) = (x \<noteq> 0)"
| "truthy (Some (JStr str)) = (str \<noteq> [])"
| "truthy (Some (JArr xs)) = True"
| "truthy (Some (JObj props)) = True"

fun isArray :: "jsval option \<Rightarrow> bool" where
  "isArray (Some (JArr xs)) = True"
| "isArray v = False"

text \<open>
  The check of \<open>onImportTrip\<close>:
  \<open>if (!trip.coordinates || !Array.isArray(trip.stamps)) throw new Error(...)\<close>.
\<close>

definition import_check :: "jsval \<Rightarrow> js_error + unit" where
  "import_check trip =
     (case get_prop trip ''coordinates'' of
        Inl e \<Rightarrow> Inl e
      | Inr trip_coordinates_v \<Rightarrow>
          if truthy trip_coordinates_v then
            (case get_prop trip ''stamps'' of
               Inl e \<Rightarrow> Inl e
             | Inr trip_stamps_v \<Rightarrow>
                 if isArray trip_stamps_v then Inr ()
                 else Inl (Error ''Invalid format: missing coordinates or stamps''))
          else Inl (Error ''Invalid format: missing coordinates or stamps''))"

text \<open>
  The text of the chosen file: the reader fails (\<open>onload\<close> never runs), \<open>JSON.parse\<close>
  throws, or it gives a value.
\<close>

datatype import_file = Unreadable | NotJson | Json jsval

text \<open>
  The \<open>try\<close> block of \<open>reader.onload\<close> in \<open>onImportTrip\<close>.  \<open>cast\<close> is the view of the
  parsed value as a \<open>SavedTrip\<close> that the annotation \<open>const trip: SavedTrip\<close> assumes;
  it means something for a document that has the shape of a \<open>SavedTrip\<close>.  The timer
  that \<open>loadTrip\<close> starts runs after the handler: \<open>import_timer\<close> is its callback on
  the imported document.  Its first statement calls \<open>trip.coordinates.map\<close>, which
  throws a \<open>TypeError\<close> unless \<open>coordinates\<close> is an array; nothing catches what a
  timer throws, and the state stays as the handler left it.
\<close>

definition import_timer :: "jsval \<Rightarrow> SavedTrip \<Rightarrow> app \<Rightarrow> (js_error \<times> app) + app" where
  "import_timer doc trip s =
     (case get_prop doc ''coordinates'' of
        Inl e \<Rightarrow> Inl (e, s)
      | Inr trip_coordinates_v \<Rightarrow>
          if isArray trip_coordinates_v then Inr (loadTrip_timeout trip s)
          else Inl (TypeError, s))"

definition import_try ::
  "(jsval \<Rightarrow> SavedTrip) \<Rightarrow> (SavedTrip list \<Rightarrow> bool) \<Rightarrow> string \<Rightarrow> import_file \<Rightarrow> app
     \<Rightarrow> (js_error \<times> app) + app" where
  "import_try cast fits new_id file s =
     (case file of
        Unreadable \<Rightarrow> Inr s
      | NotJson \<Rightarrow> Inl (SyntaxError, s)
      | Json doc \<Rightarrow>
          (case import_check doc of
             Inl e \<Rightarrow> Inl (e, s)
           | Inr u \<Rightarrow>
               (let trip = (if list_ex (\<lambda>t. trip_id t = trip_id (cast doc)) (savedTrips s)
                            then (cast doc)\<lparr> trip_id := new_id \<rparr> else cast doc);
                    s1 = loadTrip_now trip s;
                    updated = trip # savedTrips s1;
                    s2 = (case persistTrips fits updated s1 of
                            Inr s' \<Rightarrow> s'\<lparr> savedTrips := updated \<rparr>
                          | Inl (e, s') \<Rightarrow>
                              s'\<lparr> alerts := alerts s'
                                    @ [''Trip loaded! (Storage full - not added to History list)''] \<rparr>)
                in Inr (case import_timer doc trip s2 of
                          Inl (e, s') \<Rightarrow> s'
                        | Inr s' \<Rightarrow> s'))))"

definition onImportTrip ::
  "(jsval \<Rightarrow> SavedTrip) \<Rightarrow> (SavedTrip list \<Rightarrow> bool) \<Rightarrow> string \<Rightarrow> import_file list option \<Rightarrow> app
     \<Rightarrow> app" where
  "onImportTrip cast fits new_id files s =
     (case files of
        None \<Rightarrow> s
      | Some [] \<Rightarrow> s
      | Some (file # _) \<Rightarrow>
          (case import_try cast fits new_id file s of
             Inl (error, s') \<Rightarrow>
               s'\<lparr> alerts := alerts s' @ [''Failed to import trip file. Invalid or Corrupt JSON.''] \<rparr>
           | Inr s' \<Rightarrow> s'))"


section \<open>Properties\<close>

subsection \<open>The partition of the resolver's answer\<close>

text \<open>The \<open>forEach\<close> of step 3 computes two filters of the answer.\<close>

lemma fold_filter_step:
  "fold (filter_step locations) ps (v, m) =
     (v @ map (\<lambda>p. to_valid (snd p)) (filter (\<lambda>p. is_valid_item (snd p)) ps),
      m @ map (\<lambda>p. missing_name locations (fst p) (snd p)) (filter (\<lambda>p. \<not> is_valid_item (snd p)) ps))"
  by (induction ps arbitrary: v m) (auto simp: filter_step_def)

lemma filter_snd_enumerate:
  "map snd (filter (\<lambda>p. P (snd p)) (enumerate n xs)) = filter P xs"
  by (induction xs arbitrary: n) auto

lemma partition_coords_fst:
  "fst (partition_coords locations rawCoords) = map to_valid (filter is_valid_item rawCoords)"
proof -
  have "map (\<lambda>p. to_valid (snd p)) (filter (\<lambda>p. is_valid_item (snd p)) (enumerate 0 rawCoords))
          = map to_valid (map snd (filter (\<lambda>p. is_valid_item (snd p)) (enumerate 0 rawCoords)))"
    by simp
  also have "\<dots> = map to_valid (filter is_valid_item rawCoords)"
    by (simp only: filter_snd_enumerate)
  finally show ?thesis
    by (simp add: partition_coords_def fold_filter_step)
qed

lemma partition_coords_snd:
  "snd (partition_coords locations rawCoords) =
     map (\<lambda>p. missing_name locations (fst p) (snd p))
       (filter (\<lambda>p. \<not> is_valid_item (snd p)) (enumerate 0 rawCoords))"
  by (simp add: partition_coords_def fold_filter_step)

lemma partition_coords_total:
  "length (fst (partition_coords locations rawCoords)) + length (snd (partition_coords locations rawCoords))
     = length rawCoords"
proof -
  have "length (filter (\<lambda>p. \<not> is_valid_item (snd p)) (enumerate 0 rawCoords))
      = length (map snd (filter (\<lambda>p. \<not> is_valid_item (snd p)) (enumerate 0 rawCoords)))" by simp
  also have "\<dots> = length (filter (\<lambda>i. \<not> is_valid_item i) rawCoords)"
    using filter_snd_enumerate [of "\<lambda>i. \<not> is_valid_item i" 0 rawCoords] by simp
  finally show ?thesis
    using sum_length_filter_compl [of is_valid_item rawCoords]
    by (simp add: partition_coords_fst partition_coords_snd)
qed

lemma is_valid_item_iff:
  "is_valid_item item \<longleftrightarrow>
     (\<exists>a b. lc_lat item = Some a \<and> lc_lng item = Some b \<and> a \<noteq> 0 \<and> b \<noteq> 0)"
  by (auto simp: is_valid_item_def)

text \<open>
  Claim C1, as the code has it.  An entry of the answer becomes a valid coordinate if
  and only if its \<open>lat\<close> and \<open>lng\<close> are both non-null and both different from 0: the
  valid coordinates are the entries with that property, in order, every other entry
  is counted as missing, and an entry with \<open>lat = 0\<close> and \<open>lng = 0\<close> is always missing.
\<close>

theorem valid_iff_both_nonzero:
  "fst (partition_coords locations rawCoords) =
     map to_valid
       (filter (\<lambda>item. \<exists>a b. lc_lat item = Some a \<and> lc_lng item = Some b \<and> a \<noteq> 0 \<and> b \<noteq> 0)
          rawCoords)
   \<and> length (snd (partition_coords locations rawCoords)) =
       length
         (filter (\<lambda>item. \<not> (\<exists>a b. lc_lat item = Some a \<and> lc_lng item = Some b \<and> a \<noteq> 0 \<and> b \<noteq> 0))
            rawCoords)
   \<and> partition_coords locations [\<lparr> lc_name = n, lc_lat = Some 0, lc_lng = Some 0 \<rparr>] =
       ([], [missing_name locations 0 \<lparr> lc_name = n, lc_lat = Some 0, lc_lng = Some 0 \<rparr>])"
proof -
  have a: "length (snd (partition_coords locations rawCoords))
             = length (filter (\<lambda>item. \<not> is_valid_item item) rawCoords)"
    using partition_coords_total [of locations rawCoords]
      sum_length_filter_compl [of is_valid_item rawCoords]
    by (simp add: partition_coords_fst)
  have z: "partition_coords locations [\<lparr> lc_name = n, lc_lat = Some 0, lc_lng = Some 0 \<rparr>] =
       ([], [missing_name locations 0 \<lparr> lc_name = n, lc_lat = Some 0, lc_lng = Some 0 \<rparr>])"
    by (simp add: partition_coords_def filter_step_def is_valid_item_def)
  have f: "fst (partition_coords locations rawCoords)
             = map to_valid (filter (\<lambda>item. is_valid_item item) rawCoords)"
    by (simp add: partition_coords_fst)
  show ?thesis
    by (simp only: is_valid_item_iff [symmetric] a z f)
qed

text \<open>
  Claim C1 as the specification states it fails: an entry on the equator, with
  \<open>lat = 0\<close> and \<open>lng = 10\<close>, is not the pair \<open>(0, 0)\<close>, and the code counts it as missing.
\<close>

theorem equator_counterexample:
  "partition_coords [''Equator''] [\<lparr> lc_name = ''Equator'', lc_lat = Some 0, lc_lng = Some 10 \<rparr>]
     = ([], [Some ''Equator''])
   \<and> (Some (0::real), Some (10::real)) \<noteq> (Some 0, Some 0)"
  by (simp add: partition_coords_def filter_step_def is_valid_item_def missing_name_def)

subsection \<open>Route generation\<close>

text \<open>
  The state after a route generation whose resolver call returns, and after one whose
  call throws.
\<close>

lemma onGenerateRoute_returns:
  assumes "trim (locationInput s) \<noteq> []"
    and "getCoordinatesForLocations ai (parse_locations (trim (locationInput s))) = Inr rawCoords"
  shows "routeCoordinates (onGenerateRoute ai gen_id rnd today s)
           = fst (partition_coords (parse_locations (trim (locationInput s))) rawCoords)"
    and "missingLocations (onGenerateRoute ai gen_id rnd today s)
           = snd (partition_coords (parse_locations (trim (locationInput s))) rawCoords)"
    and "fst (partition_coords (parse_locations (trim (locationInput s))) rawCoords) \<noteq> [] \<Longrightarrow>
         stamps (onGenerateRoute ai gen_id rnd today s)
           = map (new_stamp gen_id rnd today)
               (enumerate 0 (fst (partition_coords (parse_locations (trim (locationInput s))) rawCoords)))"
  using assms
  by (auto simp: onGenerateRoute_def route_try_def Let_def createVisualStamps_def
           split: prod.splits)

lemma onGenerateRoute_throws:
  assumes "trim (locationInput s) \<noteq> []"
    and "getCoordinatesForLocations ai (parse_locations (trim (locationInput s))) = Inl e"
  shows "routeCoordinates (onGenerateRoute ai gen_id rnd today s) = []"
    and "stamps (onGenerateRoute ai gen_id rnd today s) = []"
  using assms
  by (auto simp: onGenerateRoute_def route_try_def Let_def route_catch_def)

text \<open>
  Claim C2, as the code has it.  When the resolver returns, the valid coordinates and
  the missing locations are two filters of its answer \<open>rawCoords\<close>, each in the order of
  the answer, and together they have the length of the answer: every entry of the
  answer gives one element of exactly one of the two lists (its returned name, or for
  a missing entry without a name the input name at its index).  The total is the
  number of input names whenever the answer has one entry for each input name.
\<close>

theorem partition_follows_response:
  assumes "trim (locationInput s) \<noteq> []"
    and "getCoordinatesForLocations ai (parse_locations (trim (locationInput s))) = Inr rawCoords"
  shows "routeCoordinates (onGenerateRoute ai gen_id rnd today s)
           = map to_valid (filter is_valid_item rawCoords)
       \<and> missingLocations (onGenerateRoute ai gen_id rnd today s)
           = map (\<lambda>p. missing_name (parse_locations (trim (locationInput s))) (fst p) (snd p))
               (filter (\<lambda>p. \<not> is_valid_item (snd p)) (enumerate 0 rawCoords))
       \<and> length (routeCoordinates (onGenerateRoute ai gen_id rnd today s))
           + length (missingLocations (onGenerateRoute ai gen_id rnd today s))
           = length rawCoords
       \<and> (length rawCoords = length (parse_locations (trim (locationInput s))) \<longrightarrow>
            length (routeCoordinates (onGenerateRoute ai gen_id rnd today s))
              + length (missingLocations (onGenerateRoute ai gen_id rnd today s))
              = length (parse_locations (trim (locationInput s))))"
proof -
  let ?locations = "parse_locations (trim (locationInput s))"
  have r: "routeCoordinates (onGenerateRoute ai gen_id rnd today s) = fst (partition_coords ?locations rawCoords)"
    and m: "missingLocations (onGenerateRoute ai gen_id rnd today s) = snd (partition_coords ?locations rawCoords)"
    using onGenerateRoute_returns [OF assms] by simp_all
  show ?thesis
    unfolding r m
    using partition_coords_total [of ?locations rawCoords]
    by (simp add: partition_coords_fst partition_coords_snd)
qed

lemma trim_example: "trim ''Paris, Atlantis, Rome'' = ''Paris, Atlantis, Rome''"
  by code_simp

lemma parse_example:
  "parse_locations ''Paris, Atlantis, Rome'' = [''Paris'', ''Atlantis'', ''Rome'']"
  by code_simp

text \<open>
  The example of the specification: of \<open>Paris, Atlantis, Rome\<close> the resolver finds the
  first and the last.
\<close>

theorem partition_follows_response_witness:
  "trim (locationInput (initial_app\<lparr> locationInput := ''Paris, Atlantis, Rome'' \<rparr>)) \<noteq> []
   \<and> routeCoordinates
       (onGenerateRoute
          (\<lambda>names. Inr (Some [\<lparr> lc_name = ''Paris'', lc_lat = Some 49, lc_lng = Some 2 \<rparr>,
                               \<lparr> lc_name = ''Atlantis'', lc_lat = None, lc_lng = None \<rparr>,
                               \<lparr> lc_name = ''Rome'', lc_lat = Some 42, lc_lng = Some 12 \<rparr>]))
          (\<lambda>i. ''id'') (\<lambda>i. 0) ''1/1/2026''
          (initial_app\<lparr> locationInput := ''Paris, Atlantis, Rome'' \<rparr>))
       = [\<lparr> vc_name = ''Paris'', vc_lat = 49, vc_lng = 2 \<rparr>,
          \<lparr> vc_name = ''Rome'', vc_lat = 42, vc_lng = 12 \<rparr>]
   \<and> missingLocations
       (onGenerateRoute
          (\<lambda>names. Inr (Some [\<lparr> lc_name = ''Paris'', lc_lat = Some 49, lc_lng = Some 2 \<rparr>,
                               \<lparr> lc_name = ''Atlantis'', lc_lat = None, lc_lng = None \<rparr>,
                               \<lparr> lc_name = ''Rome'', lc_lat = Some 42, lc_lng = Some 12 \<rparr>]))
          (\<lambda>i. ''id'') (\<lambda>i. 0) ''1/1/2026''
          (initial_app\<lparr> locationInput := ''Paris, Atlantis, Rome'' \<rparr>))
       = [Some ''Atlantis'']
   \<and> length (parse_locations
        (trim (locationInput (initial_app\<lparr> locationInput := ''Paris, Atlantis, Rome'' \<rparr>)))) = 3"
proof -
  let ?s = "initial_app\<lparr> locationInput := ''Paris, Atlantis, Rome'' \<rparr>"
  let ?raw = "[\<lparr> lc_name = ''Paris'', lc_lat = Some 49, lc_lng = Some 2 \<rparr>,
               \<lparr> lc_name = ''Atlantis'', lc_lat = None, lc_lng = None \<rparr>,
               \<lparr> lc_name = ''Rome'', lc_lat = Some (42::real), lc_lng = Some (12::real) \<rparr>]"
  let ?ai = "\<lambda>names :: string list. (Inr (Some ?raw) :: js_error + LocationCoordinate list option)"
  have h1: "trim (locationInput ?s) \<noteq> []"
    by (simp add: trim_example)
  have h2: "getCoordinatesForLocations ?ai (parse_locations (trim (locationInput ?s))) = Inr ?raw"
    by (simp add: getCoordinatesForLocations_def)
  have h3: "length (parse_locations (trim (locationInput ?s))) = 3"
    by (simp add: trim_example parse_example)
  have "routeCoordinates (onGenerateRoute ?ai (\<lambda>i. ''id'') (\<lambda>i. 0) ''1/1/2026'' ?s)
          = [\<lparr> vc_name = ''Paris'', vc_lat = 49, vc_lng = 2 \<rparr>,
             \<lparr> vc_name = ''Rome'', vc_lat = 42, vc_lng = 12 \<rparr>]
      \<and> missingLocations (onGenerateRoute ?ai (\<lambda>i. ''id'') (\<lambda>i. 0) ''1/1/2026'' ?s)
          = [Some ''Atlantis'']"
    using partition_follows_response [OF h1 h2, of "\<lambda>i. ''id''" "\<lambda>i. 0" "''1/1/2026''"]
    by (simp add: is_valid_item_def to_valid_def missing_name_def enumerate_eq_zip upt_rec)
  then show ?thesis
    using h1 h3 by blast
qed

text \<open>
  Claim C2 as the specification states it fails: two names are asked for, the
  resolver answers with one entry, and the two lists together hold one element; the
  name \<open>Rome\<close> is in neither.
\<close>

theorem short_answer_counterexample:
  "parse_locations (trim ''Paris, Rome'') = [''Paris'', ''Rome'']
   \<and> routeCoordinates
       (onGenerateRoute
          (\<lambda>names. Inr (Some [\<lparr> lc_name = ''Paris'', lc_lat = Some 49, lc_lng = Some 2 \<rparr>]))
          (\<lambda>i. ''id'') (\<lambda>i. 0) ''1/1/2026''
          (initial_app\<lparr> locationInput := ''Paris, Rome'' \<rparr>))
       = [\<lparr> vc_name = ''Paris'', vc_lat = 49, vc_lng = 2 \<rparr>]
   \<and> missingLocations
       (onGenerateRoute
          (\<lambda>names. Inr (Some [\<lparr> lc_name = ''Paris'', lc_lat = Some 49, lc_lng = Some 2 \<rparr>]))
          (\<lambda>i. ''id'') (\<lambda>i. 0) ''1/1/2026''
          (initial_app\<lparr> locationInput := ''Paris, Rome'' \<rparr>))
       = []"
proof -
  let ?s = "initial_app\<lparr> locationInput := ''Paris, Rome'' \<rparr>"
  let ?raw = "[\<lparr> lc_name = ''Paris'', lc_lat = Some (49::real), lc_lng = Some (2::real) \<rparr>]"
  let ?ai = "\<lambda>names :: string list. (Inr (Some ?raw) :: js_error + LocationCoordinate list option)"
  have t: "trim ''Paris, Rome'' = ''Paris, Rome''" by code_simp
  have p: "parse_locations ''Paris, Rome'' = [''Paris'', ''Rome'']" by code_simp
  have h1: "trim (locationInput ?s) \<noteq> []" by (simp add: t)
  have h2: "getCoordinatesForLocations ?ai (parse_locations (trim (locationInput ?s))) = Inr ?raw"
    by (simp add: getCoordinatesForLocations_def)
  have "routeCoordinates (onGenerateRoute ?ai (\<lambda>i. ''id'') (\<lambda>i. 0) ''1/1/2026'' ?s)
          = [\<lparr> vc_name = ''Paris'', vc_lat = 49, vc_lng = 2 \<rparr>]"
    and "missingLocations (onGenerateRoute ?ai (\<lambda>i. ''id'') (\<lambda>i. 0) ''1/1/2026'' ?s) = []"
    using onGenerateRoute_returns(1,2) [OF h1 h2, of "\<lambda>i. ''id''" "\<lambda>i. 0" "''1/1/2026''"]
    by (simp_all add: partition_coords_fst partition_coords_snd is_valid_item_def to_valid_def)
  then show ?thesis by (simp add: t p)
qed

subsection \<open>Default stamps\<close>

lemma new_stamp_rotation:
  assumes "0 \<le> rnd i" and "rnd i < 1"
  shows "st_rotation (new_stamp gen_id rnd today (i, c)) \<in> \<int>"
    and "- 15 \<le> st_rotation (new_stamp gen_id rnd today (i, c))"
    and "st_rotation (new_stamp gen_id rnd today (i, c)) \<le> 14"
proof -
  have lo: "0 \<le> \<lfloor>rnd i * 30\<rfloor>" using assms(1) by simp
  have "rnd i * 30 < 30" using assms(2) by simp
  then have hi: "\<lfloor>rnd i * 30\<rfloor> \<le> 29" by (simp add: floor_le_iff)
  show "st_rotation (new_stamp gen_id rnd today (i, c)) \<in> \<int>"
    by (simp add: new_stamp_def)
  show "- 15 \<le> st_rotation (new_stamp gen_id rnd today (i, c))"
    using lo by (simp add: new_stamp_def)
  show "st_rotation (new_stamp gen_id rnd today (i, c)) \<le> 14"
    using hi by (simp add: new_stamp_def)
qed

lemma onGenerateRoute_stamps:
  assumes "trim (locationInput s) \<noteq> []"
    and "routeCoordinates (onGenerateRoute ai gen_id rnd today s) \<noteq> []"
  shows "stamps (onGenerateRoute ai gen_id rnd today s)
           = map (new_stamp gen_id rnd today)
               (enumerate 0 (routeCoordinates (onGenerateRoute ai gen_id rnd today s)))"
proof (cases "getCoordinatesForLocations ai (parse_locations (trim (locationInput s)))")
  case (Inl e)
  from onGenerateRoute_throws(1) [OF assms(1) Inl] assms(2) show ?thesis by simp
next
  case (Inr rawCoords)
  from onGenerateRoute_returns [OF assms(1) Inr, of gen_id rnd today] assms(2)
  show ?thesis by simp
qed

text \<open>
  Claim C8.  After a route generation that leaves at least one valid coordinate, with
  every draw of \<open>Math.random()\<close> in \<open>[0, 1)\<close>, there is one stamp for each coordinate, in
  the same order: the stamp of index \<open>i\<close> has the name of the coordinate of index \<open>i\<close>,
  the colour of the palette at \<open>i\<close> modulo its size, which is 5, and a rotation that is
  a whole number between -15 and 15.
\<close>

theorem one_stamp_per_coordinate:
  assumes "trim (locationInput s) \<noteq> []"
    and "routeCoordinates (onGenerateRoute ai gen_id rnd today s) \<noteq> []"
    and "\<forall>i. 0 \<le> rnd i \<and> rnd i < 1"
  shows "length (stamps (onGenerateRoute ai gen_id rnd today s))
           = length (routeCoordinates (onGenerateRoute ai gen_id rnd today s))
       \<and> length colors = 5
       \<and> (\<forall>i < length (routeCoordinates (onGenerateRoute ai gen_id rnd today s)).
            st_name (stamps (onGenerateRoute ai gen_id rnd today s) ! i)
              = vc_name (routeCoordinates (onGenerateRoute ai gen_id rnd today s) ! i)
          \<and> st_color (stamps (onGenerateRoute ai gen_id rnd today s) ! i)
              = colors ! (i mod length colors)
          \<and> st_rotation (stamps (onGenerateRoute ai gen_id rnd today s) ! i) \<in> \<int>
          \<and> - 15 \<le> st_rotation (stamps (onGenerateRoute ai gen_id rnd today s) ! i)
          \<and> st_rotation (stamps (onGenerateRoute ai gen_id rnd today s) ! i) \<le> 15)"
proof -
  let ?s' = "onGenerateRoute ai gen_id rnd today s"
  have st: "stamps ?s' = map (new_stamp gen_id rnd today) (enumerate 0 (routeCoordinates ?s'))"
    by (rule onGenerateRoute_stamps [OF assms(1,2)])
  have len: "length (stamps ?s') = length (routeCoordinates ?s')"
    by (simp add: st)
  have each: "st_name (stamps ?s' ! i) = vc_name (routeCoordinates ?s' ! i)
          \<and> st_color (stamps ?s' ! i) = colors ! (i mod length colors)
          \<and> st_rotation (stamps ?s' ! i) \<in> \<int>
          \<and> - 15 \<le> st_rotation (stamps ?s' ! i)
          \<and> st_rotation (stamps ?s' ! i) \<le> 15"
    if "i < length (routeCoordinates ?s')" for i
  proof -
    have nth: "stamps ?s' ! i = new_stamp gen_id rnd today (i, routeCoordinates ?s' ! i)"
      using that by (simp add: st nth_enumerate_eq)
    have r: "0 \<le> rnd i" "rnd i < 1" using assms(3) by simp_all
    have "st_rotation (new_stamp gen_id rnd today (i, routeCoordinates ?s' ! i)) \<le> 15"
      using new_stamp_rotation(3) [of rnd i gen_id today "routeCoordinates ?s' ! i"] r by linarith
    then show ?thesis
      unfolding nth
      using new_stamp_rotation(1,2) [of rnd i gen_id today "routeCoordinates ?s' ! i"] r
      by (simp add: new_stamp_def)
  qed
  have c5: "length colors = 5" by (simp add: colors_def)
  show ?thesis using len c5 each by blast
qed

theorem one_stamp_per_coordinate_witness:
  "trim (locationInput (initial_app\<lparr> locationInput := ''Paris, Atlantis, Rome'' \<rparr>)) \<noteq> []
   \<and> map vc_name (routeCoordinates
       (onGenerateRoute
          (\<lambda>names. Inr (Some [\<lparr> lc_name = ''Paris'', lc_lat = Some 49, lc_lng = Some 2 \<rparr>,
                               \<lparr> lc_name = ''Atlantis'', lc_lat = None, lc_lng = None \<rparr>,
                               \<lparr> lc_name = ''Rome'', lc_lat = Some 42, lc_lng = Some 12 \<rparr>]))
          (\<lambda>i. ''id'') (\<lambda>i. 1 / 2) ''1/1/2026''
          (initial_app\<lparr> locationInput := ''Paris, Atlantis, Rome'' \<rparr>)))
       = [''Paris'', ''Rome'']
   \<and> (0::real) \<le> 1 / 2 \<and> (1::real) / 2 < 1
   \<and> length (stamps
       (onGenerateRoute
          (\<lambda>names. Inr (Some [\<lparr> lc_name = ''Paris'', lc_lat = Some 49, lc_lng = Some 2 \<rparr>,
                               \<lparr> lc_name = ''Atlantis'', lc_lat = None, lc_lng = None \<rparr>,
                               \<lparr> lc_name = ''Rome'', lc_lat = Some 42, lc_lng = Some 12 \<rparr>]))
          (\<lambda>i. ''id'') (\<lambda>i. 1 / 2) ''1/1/2026''
          (initial_app\<lparr> locationInput := ''Paris, Atlantis, Rome'' \<rparr>)))
       = 2
   \<and> st_color (stamps
       (onGenerateRoute
          (\<lambda>names. Inr (Some [\<lparr> lc_name = ''Paris'', lc_lat = Some 49, lc_lng = Some 2 \<rparr>,
                               \<lparr> lc_name = ''Atlantis'', lc_lat = None, lc_lng = None \<rparr>,
                               \<lparr> lc_name = ''Rome'', lc_lat = Some 42, lc_lng = Some 12 \<rparr>]))
          (\<lambda>i. ''id'') (\<lambda>i. 1 / 2) ''1/1/2026''
          (initial_app\<lparr> locationInput := ''Paris, Atlantis, Rome'' \<rparr>)) ! 1)
       = ''border-rose-600 text-rose-800''"
proof -
  let ?s = "initial_app\<lparr> locationInput := ''Paris, Atlantis, Rome'' \<rparr>"
  let ?raw = "[\<lparr> lc_name = ''Paris'', lc_lat = Some 49, lc_lng = Some 2 \<rparr>,
               \<lparr> lc_name = ''Atlantis'', lc_lat = None, lc_lng = None \<rparr>,
               \<lparr> lc_name = ''Rome'', lc_lat = Some (42::real), lc_lng = Some (12::real) \<rparr>]"
  let ?ai = "\<lambda>names :: string list. (Inr (Some ?raw) :: js_error + LocationCoordinate list option)"
  let ?s' = "onGenerateRoute ?ai (\<lambda>i. ''id'') (\<lambda>i. 1 / 2) ''1/1/2026'' ?s"
  have h1: "trim (locationInput ?s) \<noteq> []"
    by (simp add: trim_example)
  have h2: "getCoordinatesForLocations ?ai (parse_locations (trim (locationInput ?s))) = Inr ?raw"
    by (simp add: getCoordinatesForLocations_def)
  have rc: "routeCoordinates ?s' = [\<lparr> vc_name = ''Paris'', vc_lat = 49, vc_lng = 2 \<rparr>,
          \<lparr> vc_name = ''Rome'', vc_lat = 42, vc_lng = 12 \<rparr>]"
    using onGenerateRoute_returns(1) [OF h1 h2, of "\<lambda>i. ''id''" "\<lambda>i. 1 / 2" "''1/1/2026''"]
    by (simp add: partition_coords_fst is_valid_item_def to_valid_def)
  have h3: "routeCoordinates ?s' \<noteq> []" by (simp add: rc)
  have h4: "\<forall>i::nat. (0::real) \<le> 1 / 2 \<and> (1::real) / 2 < 1" by simp
  from one_stamp_per_coordinate [OF h1 h3 h4]
  have "length (stamps ?s') = 2" and "st_color (stamps ?s' ! 1) = colors ! 1"
    by (simp_all add: rc)
  then show ?thesis
    using h1 rc by (simp add: colors_def)
qed

subsection \<open>Saving and loading a trip\<close>

lemma spread_id: "spread = id"
  by (rule ext) (simp add: spread_def)

lemma saveTrip_savedTrips:
  assumes "routeCoordinates s = first # rest"
  shows "savedTrips (saveTrip fits new_id now s) = newTrip new_id now first s # savedTrips s"
  using assms by (simp add: saveTrip_def persistTrips_def Let_def)

lemma loadTrip_newTrip:
  "routeCoordinates (loadTrip (newTrip new_id now first s) s') = routeCoordinates s"
  "stamps (loadTrip (newTrip new_id now first s) s') = stamps s"
  "missingLocations (loadTrip (newTrip new_id now first s) s') = []"
  "mapStyle (loadTrip (newTrip new_id now first s) s') = mapStyle s"
  "routeColor (loadTrip (newTrip new_id now first s) s') = routeColor s"
  "routeWeight (loadTrip (newTrip new_id now first s) s') = routeWeight s"
  "mapHeight (loadTrip (newTrip new_id now first s) s') = mapHeight s"
  "customIconUrl (loadTrip (newTrip new_id now first s) s') = or_null (customIconUrl s)"
  by (simp_all add: loadTrip_def loadTrip_timeout_def loadTrip_now_def newTrip_def spread_id
        or_null_def split: option.splits)

text \<open>
  The copies at the level of references: the objects made by a copy are new, and hold
  what the copied objects hold; no object that existed before is changed.
\<close>

lemma spread_each_fresh:
  assumes "list_all (\<lambda>r. r < used h) rs"
  shows "list_all (\<lambda>r'. used h \<le> r' \<and> r' < used (snd (spread_each rs h))) (fst (spread_each rs h))
       \<and> map (cell (snd (spread_each rs h))) (fst (spread_each rs h)) = map (cell h) rs
       \<and> (\<forall>r < used h. cell (snd (spread_each rs h)) r = cell h r)
       \<and> used h \<le> used (snd (spread_each rs h))"
  using assms
proof (induction rs arbitrary: h)
  case Nil
  show ?case by simp
next
  case (Cons r rs)
  let ?h1 = "h\<lparr> cell := (cell h)(used h := cell h r), used := Suc (used h) \<rparr>"
  have r: "r < used h" and rs: "list_all (\<lambda>r. r < used h) rs"
    using Cons.prems by simp_all
  have "list_all (\<lambda>r. r < used ?h1) rs"
    using rs by (simp add: list_all_iff) (meson less_Suc_eq)
  note IH = Cons.IH [OF this]
  obtain rs' h' where sp: "spread_each rs ?h1 = (rs', h')" by (cases "spread_each rs ?h1")
  from IH sp have a: "list_all (\<lambda>r'. Suc (used h) \<le> r' \<and> r' < used h') rs'"
    and b: "map (cell h') rs' = map (cell ?h1) rs"
    and c: "\<forall>q < Suc (used h). cell h' q = cell ?h1 q"
    and d: "Suc (used h) \<le> used h'"
    by simp_all
  have b': "map (cell ?h1) rs = map (cell h) rs"
    using rs by (induction rs) auto
  have c0: "cell h' (used h) = cell h r" using c by simp
  have c': "\<forall>q < used h. cell h' q = cell h q" using c by simp
  have a': "list_all (\<lambda>r'. used h \<le> r' \<and> r' < used h') rs'"
    using a by (simp add: list_all_iff) (meson Suc_leD)
  show ?case
    using a' b b' c0 c' d by (simp add: sp)
qed

lemma save_then_load_refs_fresh:
  assumes "list_all (\<lambda>r. r < used h) active"
  shows "case save_then_load_refs active h of
           (saved, loaded, h2) \<Rightarrow>
             set loaded \<inter> set active = {} \<and> set loaded \<inter> set saved = {}
             \<and> set saved \<inter> set active = {}
             \<and> map (cell h2) loaded = map (cell h) active
             \<and> map (cell h2) saved = map (cell h) active
             \<and> map (cell h2) active = map (cell h) active"
proof -
  obtain saved h1 where s1: "spread_each active h = (saved, h1)" by (cases "spread_each active h")
  obtain loaded h2 where s2: "spread_each saved h1 = (loaded, h2)" by (cases "spread_each saved h1")
  from spread_each_fresh [OF assms] s1
  have a1: "list_all (\<lambda>r'. used h \<le> r' \<and> r' < used h1) saved"
    and v1: "map (cell h1) saved = map (cell h) active"
    and k1: "\<forall>r < used h. cell h1 r = cell h r"
    by simp_all
  have pre2: "list_all (\<lambda>r. r < used h1) saved"
    using a1 by (simp add: list_all_iff)
  from spread_each_fresh [OF pre2] s2
  have a2: "list_all (\<lambda>r'. used h1 \<le> r' \<and> r' < used h2) loaded"
    and v2: "map (cell h2) loaded = map (cell h1) saved"
    and k2: "\<forall>r < used h1. cell h2 r = cell h1 r"
    by simp_all
  have d1: "set saved \<inter> set active = {}"
    using a1 assms by (fastforce simp: list_all_iff)
  have d2: "set loaded \<inter> set saved = {}"
    using a1 a2 by (fastforce simp: list_all_iff)
  have le: "used h \<le> used h1"
    using spread_each_fresh [OF assms] s1 by simp
  have d3: "set loaded \<inter> set active = {}"
    using a2 assms le by (fastforce simp: list_all_iff)
  have keep_saved: "map (cell h2) saved = map (cell h1) saved"
    using pre2 k2 by (simp add: list_all_iff)
  have keep_active: "map (cell h2) active = map (cell h) active"
    using assms k1 k2 le by (simp add: list_all_iff) (metis less_le_trans)
  show ?thesis
    using d1 d2 d3 v1 v2 keep_saved keep_active
    by (simp add: save_then_load_refs_def s1 s2)
qed

text \<open>
  Claim C3, as the code has it.  For a route with at least one coordinate, \<open>saveTrip\<close>
  puts a new trip at the head of the saved trips, and loading that trip gives back
  the coordinates, the stamps, the style, the colour, the weight and the height of
  before, and the custom icon of before (none when it was the empty string).  A saved
  trip holds no list of missing locations: after the load that list is empty.  The
  values are equal through copies and not by reference: with the arrays as references
  into a store, the objects of the loaded array are different from those of the array
  that was saved and from those of the saved trip, and hold the same contents.
\<close>

theorem save_then_load:
  assumes "routeCoordinates s \<noteq> []"
  shows "(\<exists>trip. savedTrips (saveTrip fits new_id now s) = trip # savedTrips s
           \<and> routeCoordinates (loadTrip trip (saveTrip fits new_id now s)) = routeCoordinates s
           \<and> stamps (loadTrip trip (saveTrip fits new_id now s)) = stamps s
           \<and> missingLocations (loadTrip trip (saveTrip fits new_id now s)) = []
           \<and> mapStyle (loadTrip trip (saveTrip fits new_id now s)) = mapStyle s
           \<and> routeColor (loadTrip trip (saveTrip fits new_id now s)) = routeColor s
           \<and> routeWeight (loadTrip trip (saveTrip fits new_id now s)) = routeWeight s
           \<and> mapHeight (loadTrip trip (saveTrip fits new_id now s)) = mapHeight s
           \<and> customIconUrl (loadTrip trip (saveTrip fits new_id now s)) = or_null (customIconUrl s))
       \<and> (list_all (\<lambda>r. r < used h) active \<longrightarrow>
            (case save_then_load_refs active h of
               (saved, loaded, h2) \<Rightarrow>
                 set loaded \<inter> set active = {} \<and> set loaded \<inter> set saved = {}
                 \<and> map (cell h2) loaded = map (cell h) active))"
proof -
  from assms obtain first rest where c: "routeCoordinates s = first # rest"
    by (cases "routeCoordinates s") auto
  have refs: "case save_then_load_refs active h of
               (saved, loaded, h2) \<Rightarrow>
                 set loaded \<inter> set active = {} \<and> set loaded \<inter> set saved = {}
                 \<and> map (cell h2) loaded = map (cell h) active"
    if "list_all (\<lambda>r. r < used h) active"
    using save_then_load_refs_fresh [OF that] by (auto split: prod.splits)
  have "\<exists>trip. savedTrips (saveTrip fits new_id now s) = trip # savedTrips s
           \<and> routeCoordinates (loadTrip trip (saveTrip fits new_id now s)) = routeCoordinates s
           \<and> stamps (loadTrip trip (saveTrip fits new_id now s)) = stamps s
           \<and> missingLocations (loadTrip trip (saveTrip fits new_id now s)) = []
           \<and> mapStyle (loadTrip trip (saveTrip fits new_id now s)) = mapStyle s
           \<and> routeColor (loadTrip trip (saveTrip fits new_id now s)) = routeColor s
           \<and> routeWeight (loadTrip trip (saveTrip fits new_id now s)) = routeWeight s
           \<and> mapHeight (loadTrip trip (saveTrip fits new_id now s)) = mapHeight s
           \<and> customIconUrl (loadTrip trip (saveTrip fits new_id now s)) = or_null (customIconUrl s)"
    using saveTrip_savedTrips [OF c, of fits new_id now]
    by (intro exI [of _ "newTrip new_id now first s"]) (simp add: loadTrip_newTrip)
  then show ?thesis using refs by blast
qed

theorem save_then_load_witness:
  "routeCoordinates (initial_app\<lparr> routeCoordinates := [\<lparr> vc_name = ''Paris'', vc_lat = 49, vc_lng = 2 \<rparr>] \<rparr>) \<noteq> []
   \<and> (\<exists>trip. savedTrips (saveTrip (\<lambda>trips. True) ''t1'' 0
         (initial_app\<lparr> routeCoordinates := [\<lparr> vc_name = ''Paris'', vc_lat = 49, vc_lng = 2 \<rparr>] \<rparr>))
           = [trip]
        \<and> routeCoordinates (loadTrip trip (saveTrip (\<lambda>trips. True) ''t1'' 0
             (initial_app\<lparr> routeCoordinates := [\<lparr> vc_name = ''Paris'', vc_lat = 49, vc_lng = 2 \<rparr>] \<rparr>)))
           = [\<lparr> vc_name = ''Paris'', vc_lat = 49, vc_lng = 2 \<rparr>])
   \<and> list_all (\<lambda>r. r < used \<lparr> cell = (\<lambda>r. ''Paris''), used = 1 \<rparr>) [0]
   \<and> fst (snd (save_then_load_refs [0] \<lparr> cell = (\<lambda>r. ''Paris''), used = 1 \<rparr>)) = [2]
   \<and> set (fst (snd (save_then_load_refs [0] \<lparr> cell = (\<lambda>r. ''Paris''), used = 1 \<rparr>))) \<inter> set [0] = {}"
proof -
  let ?s = "initial_app\<lparr> routeCoordinates := [\<lparr> vc_name = ''Paris'', vc_lat = 49, vc_lng = 2 \<rparr>] \<rparr>"
  let ?h = "\<lparr> cell = (\<lambda>r::nat. ''Paris''), used = 1 \<rparr>"
  have h: "routeCoordinates ?s \<noteq> []" by simp
  have k: "list_all (\<lambda>r. r < used ?h) [0]" by simp
  note inst = save_then_load [OF h, of "\<lambda>trips. True" "''t1''" 0 ?h "[0]"]
  have st: "savedTrips ?s = []" by (simp add: initial_app_def)
  have rc: "routeCoordinates ?s = [\<lparr> vc_name = ''Paris'', vc_lat = 49, vc_lng = 2 \<rparr>]" by simp
  have a: "\<exists>trip. savedTrips (saveTrip (\<lambda>trips. True) ''t1'' 0 ?s) = [trip]
        \<and> routeCoordinates (loadTrip trip (saveTrip (\<lambda>trips. True) ''t1'' 0 ?s))
           = [\<lparr> vc_name = ''Paris'', vc_lat = 49, vc_lng = 2 \<rparr>]"
    using inst [THEN conjunct1] unfolding st rc by (elim exE conjE) (rule exI, erule conjI, assumption)
  have l: "save_then_load_refs [0] ?h
             = ([1], [2], \<lparr> cell = (\<lambda>r. ''Paris''), used = 3 \<rparr>)"
    by (simp add: save_then_load_refs_def) (rule ext, simp)
  from inst [THEN conjunct2, rule_format, OF k]
  have d: "set (fst (snd (save_then_load_refs [0] ?h))) \<inter> set [0] = {}"
    unfolding l by simp
  have l2: "fst (snd (save_then_load_refs [0] ?h)) = [2]"
    unfolding l by simp
  show ?thesis
    by (intro conjI) (rule h a k d l2)+
qed

text \<open>
  Claim C3 as the specification states it fails: a route with one coordinate and one
  missing location is saved and then loaded, and the list of missing locations,
  which held \<open>Atlantis\<close>, is empty.
\<close>

theorem missing_list_counterexample:
  "missingLocations
     (initial_app\<lparr> routeCoordinates := [\<lparr> vc_name = ''Paris'', vc_lat = 49, vc_lng = 2 \<rparr>],
                    missingLocations := [Some ''Atlantis''] \<rparr>) = [Some ''Atlantis'']
   \<and> missingLocations
       (loadTrip
          (hd (savedTrips (saveTrip (\<lambda>trips. True) ''t1'' 0
             (initial_app\<lparr> routeCoordinates := [\<lparr> vc_name = ''Paris'', vc_lat = 49, vc_lng = 2 \<rparr>],
                            missingLocations := [Some ''Atlantis''] \<rparr>))))
          (saveTrip (\<lambda>trips. True) ''t1'' 0
             (initial_app\<lparr> routeCoordinates := [\<lparr> vc_name = ''Paris'', vc_lat = 49, vc_lng = 2 \<rparr>],
                            missingLocations := [Some ''Atlantis''] \<rparr>))) = []"
  by (simp add: loadTrip_def loadTrip_timeout_def)

text \<open>
  Claim C6.  When the route is not empty and local storage refuses the list with the
  new trip, \<open>saveTrip\<close> has put the new trip at the head of the saved trips in memory,
  has left local storage as it was, and has shown the warning that the trip will
  disappear on refresh.
\<close>

theorem save_survives_failed_write:
  assumes "routeCoordinates s = first # rest"
    and "\<not> fits (newTrip new_id now first s # savedTrips s)"
  shows "savedTrips (saveTrip fits new_id now s) = newTrip new_id now first s # savedTrips s
       \<and> storage (saveTrip fits new_id now s) = storage s
       \<and> alerts (saveTrip fits new_id now s) = alerts s
           @ [''Storage Full! This trip is saved for this session, but will disappear on refresh. Please download the Data Config to save it permanently.'']"
  using assms by (simp add: saveTrip_def persistTrips_def Let_def)

theorem save_survives_failed_write_witness:
  "routeCoordinates (initial_app\<lparr> routeCoordinates := [\<lparr> vc_name = ''Paris'', vc_lat = 49, vc_lng = 2 \<rparr>] \<rparr>)
     = [\<lparr> vc_name = ''Paris'', vc_lat = 49, vc_lng = 2 \<rparr>]
   \<and> map trip_name (savedTrips (saveTrip (\<lambda>trips. False) ''t1'' 0
       (initial_app\<lparr> routeCoordinates := [\<lparr> vc_name = ''Paris'', vc_lat = 49, vc_lng = 2 \<rparr>] \<rparr>)))
       = [''Paris Trip'']
   \<and> storage (saveTrip (\<lambda>trips. False) ''t1'' 0
       (initial_app\<lparr> routeCoordinates := [\<lparr> vc_name = ''Paris'', vc_lat = 49, vc_lng = 2 \<rparr>] \<rparr>)) = None"
proof -
  let ?s = "initial_app\<lparr> routeCoordinates := [\<lparr> vc_name = ''Paris'', vc_lat = 49, vc_lng = 2 \<rparr>] \<rparr>"
  have h1: "routeCoordinates ?s = [\<lparr> vc_name = ''Paris'', vc_lat = 49, vc_lng = 2 \<rparr>]" by simp
  have h2: "\<not> (\<lambda>trips. False) (newTrip ''t1'' 0 \<lparr> vc_name = ''Paris'', vc_lat = 49, vc_lng = 2 \<rparr> ?s # savedTrips ?s)"
    by simp
  from save_survives_failed_write [of ?s _ "[]" "\<lambda>trips. False" "''t1''" 0, OF h1 h2]
  show ?thesis
    by (simp add: newTrip_def initial_app_def)
qed

subsection \<open>Deleting a trip\<close>

text \<open>
  The delete flow, step by step.  \<open>requestDeleteTrip\<close> changes the pending id and
  nothing else, and so does \<open>cancelDeleteTrip\<close>.  \<open>confirmDeleteTrip\<close> does nothing when
  no id, or the empty id, is pending.  With a non-empty pending id it removes the
  trips with that id from the list in memory; when local storage takes that list, it
  is written and the pending id is cleared; when local storage refuses it, the
  exception leaves the handler after the list in memory was changed.
\<close>

lemma requestDeleteTrip_only_pending:
  "requestDeleteTrip tripId s = s\<lparr> tripToDelete := Some tripId \<rparr>"
  by (simp add: requestDeleteTrip_def)

lemma cancelDeleteTrip_only_pending:
  "cancelDeleteTrip s = s\<lparr> tripToDelete := None \<rparr>"
  by (simp add: cancelDeleteTrip_def)

lemma confirmDeleteTrip_without_request:
  "or_null (tripToDelete s) = None \<Longrightarrow> confirmDeleteTrip fits s = Inr s"
  by (simp add: confirmDeleteTrip_def)

lemma confirmDeleteTrip_written:
  assumes "tripToDelete s = Some idToDelete" and "idToDelete \<noteq> []"
    and "fits (filter (\<lambda>t. trip_id t \<noteq> idToDelete) (savedTrips s))"
  shows "confirmDeleteTrip fits s =
           Inr (s\<lparr> savedTrips := filter (\<lambda>t. trip_id t \<noteq> idToDelete) (savedTrips s),
                   storage := Some (filter (\<lambda>t. trip_id t \<noteq> idToDelete) (savedTrips s)),
                   tripToDelete := None \<rparr>)"
  using assms by (simp add: confirmDeleteTrip_def persistTrips_def or_null_def Let_def)

lemma confirmDeleteTrip_refused:
  assumes "tripToDelete s = Some idToDelete" and "idToDelete \<noteq> []"
    and "\<not> fits (filter (\<lambda>t. trip_id t \<noteq> idToDelete) (savedTrips s))"
  shows "confirmDeleteTrip fits s =
           Inl (QuotaExceededError,
                s\<lparr> savedTrips := filter (\<lambda>t. trip_id t \<noteq> idToDelete) (savedTrips s) \<rparr>)"
  using assms by (simp add: confirmDeleteTrip_def persistTrips_def or_null_def Let_def)

text \<open>
  A trip whose id is the empty string, as \<open>onImportTrip\<close> takes it from a document
  (it mints an id only on a collision), is not removed: \<open>!idToDelete\<close> holds for it.
\<close>

lemma confirmDeleteTrip_empty_id:
  "confirmDeleteTrip fits (requestDeleteTrip [] s) = Inr (requestDeleteTrip [] s)"
  by (simp add: confirmDeleteTrip_def requestDeleteTrip_def or_null_def)

text \<open>
  Claim C7 fails on the code.  Local storage has room for one trip and holds the trip
  \<open>t1\<close>.  Two routes are saved; neither write fits, and \<open>saveTrip\<close> keeps both trips in
  memory.  The deletion of \<open>t1\<close> is requested and confirmed: \<open>persistTrips\<close> throws on the
  two remaining trips, and \<open>confirmDeleteTrip\<close>, which has no \<open>try\<close> around it as
  \<open>saveTrip\<close> and \<open>onImportTrip\<close> have, is left by the exception.  The trip \<open>t1\<close> is gone
  from the list in memory and still in local storage, and its id is still pending.
\<close>

theorem confirmed_delete_stays_in_storage:
  "(case confirmDeleteTrip (\<lambda>trips. length trips \<le> 1)
       (requestDeleteTrip ''t1''
          (saveTrip (\<lambda>trips. length trips \<le> 1) ''t3'' 2
             (saveTrip (\<lambda>trips. length trips \<le> 1) ''t2'' 1
                (initial_app\<lparr>
                   routeCoordinates := [\<lparr> vc_name = ''Rome'', vc_lat = 42, vc_lng = 12 \<rparr>],
                   savedTrips :=
                     [\<lparr> trip_id = ''t1'', trip_name = ''Paris Trip'', trip_date = 0,
                        trip_locations = ''Paris'', trip_coordinates = [], trip_stamps = [],
                        trip_styleConfig = None \<rparr>],
                   storage := Some
                     [\<lparr> trip_id = ''t1'', trip_name = ''Paris Trip'', trip_date = 0,
                        trip_locations = ''Paris'', trip_coordinates = [], trip_stamps = [],
                        trip_styleConfig = None \<rparr>] \<rparr>)))) of
      Inl (e, s') \<Rightarrow>
        e = QuotaExceededError
        \<and> map trip_id (savedTrips s') = [''t3'', ''t2'']
        \<and> map_option (map trip_id) (storage s') = Some [''t1'']
        \<and> tripToDelete s' = Some ''t1''
    | Inr s' \<Rightarrow> False)"
  by (simp add: confirmDeleteTrip_def requestDeleteTrip_def saveTrip_def newTrip_def
        persistTrips_def or_null_def Let_def initial_app_def)

subsection \<open>Importing a trip\<close>

lemma import_try_rejected:
  assumes "import_check doc = Inl e"
  shows "import_try cast fits new_id (Json doc) s = Inl (e, s)"
  using assms by (simp add: import_try_def)

text \<open>
  What the check of \<open>onImportTrip\<close> accepts: an object whose \<open>coordinates\<close> is any truthy
  value and whose \<open>stamps\<close> is an array.
\<close>

lemma import_check_accepts_iff:
  "import_check doc = Inr () \<longleftrightarrow>
     (\<exists>props c xs. doc = JObj props \<and> map_of props ''coordinates'' = Some c \<and> truthy (Some c)
        \<and> map_of props ''stamps'' = Some (JArr xs))"
proof (cases doc)
  case (JObj props)
  have "isArray v \<longleftrightarrow> (\<exists>xs. v = Some (JArr xs))" for v
    by (cases v rule: isArray.cases) auto
  then show ?thesis
    using JObj by (cases "map_of props ''coordinates''") (auto simp: import_check_def)
qed (simp_all add: import_check_def TypeError_def Error_def)

text \<open>
  When the check of the code rejects the document, or the text is no JSON, the import
  changes nothing but the list of alerts, which gains the message of the failed
  import.  A document without \<open>stamps\<close> is rejected, with the error
  \<open>Invalid format: missing coordinates or stamps\<close>.
\<close>

lemma rejected_import_changes_nothing:
  "(import_check doc = Inl e \<longrightarrow>
      onImportTrip cast fits new_id (Some (Json doc # others)) s
        = s\<lparr> alerts := alerts s @ [''Failed to import trip file. Invalid or Corrupt JSON.''] \<rparr>)
   \<and> (map_of props ''stamps'' = None \<longrightarrow>
      import_check (JObj props) = Inl (Error ''Invalid format: missing coordinates or stamps''))
   \<and> onImportTrip cast fits new_id (Some (NotJson # others)) s
        = s\<lparr> alerts := alerts s @ [''Failed to import trip file. Invalid or Corrupt JSON.''] \<rparr>"
  by (simp add: onImportTrip_def import_try_def import_check_def)

text \<open>
  Claim C4 fails on the code.  A document whose \<open>coordinates\<close> is the string \<open>x\<close> and
  whose \<open>stamps\<close> is an array passes the check, and the import adds it to the saved
  trips: \<open>coordinates\<close> is tested for truth only, \<open>stamps\<close> with \<open>Array.isArray\<close>.
\<close>

theorem import_accepts_coordinates_that_are_no_array:
  "import_check (JObj [(''coordinates'', JStr ''x''), (''stamps'', JArr [])]) = Inr ()
   \<and> savedTrips (onImportTrip cast (\<lambda>trips. True) new_id
        (Some [Json (JObj [(''coordinates'', JStr ''x''), (''stamps'', JArr [])])]) initial_app)
       = [cast (JObj [(''coordinates'', JStr ''x''), (''stamps'', JArr [])])]"
  by (simp add: import_check_def onImportTrip_def import_try_def import_timer_def
        persistTrips_def Let_def loadTrip_now_def initial_app_def split: option.splits)

text \<open>
  Claim C9 fails on the code, by the same test as claim C4.  The document whose
  \<open>coordinates\<close> is the string \<open>x\<close> has no sequence of coordinates.  It is not rejected
  and no error is shown: the first part of \<open>loadTrip\<close> replaces the input and the
  status and empties the route, the trip is written to local storage and put in the
  list of saved trips, and the callback of the timer throws before it sets the route,
  so that the status stays at \<open>Loading\<close>.
\<close>

theorem import_without_sequence_is_partial:
  "\<not> isArray (map_of [(''coordinates'', JStr ''x''), (''stamps'', JArr [])] ''coordinates'')
   \<and> savedTrips (onImportTrip cast (\<lambda>trips. True) new_id
        (Some [Json (JObj [(''coordinates'', JStr ''x''), (''stamps'', JArr [])])]) initial_app)
       = [cast (JObj [(''coordinates'', JStr ''x''), (''stamps'', JArr [])])]
   \<and> storage (onImportTrip cast (\<lambda>trips. True) new_id
        (Some [Json (JObj [(''coordinates'', JStr ''x''), (''stamps'', JArr [])])]) initial_app)
       = Some [cast (JObj [(''coordinates'', JStr ''x''), (''stamps'', JArr [])])]
   \<and> locationInput (onImportTrip cast (\<lambda>trips. True) new_id
        (Some [Json (JObj [(''coordinates'', JStr ''x''), (''stamps'', JArr [])])]) initial_app)
       = trip_locations (cast (JObj [(''coordinates'', JStr ''x''), (''stamps'', JArr [])]))
   \<and> statusMessage (onImportTrip cast (\<lambda>trips. True) new_id
        (Some [Json (JObj [(''coordinates'', JStr ''x''), (''stamps'', JArr [])])]) initial_app)
       = ''Loading ''
           @ trip_name (cast (JObj [(''coordinates'', JStr ''x''), (''stamps'', JArr [])])) @ ''...''
   \<and> alerts (onImportTrip cast (\<lambda>trips. True) new_id
        (Some [Json (JObj [(''coordinates'', JStr ''x''), (''stamps'', JArr [])])]) initial_app)
       = []"
  by (simp add: import_check_def onImportTrip_def import_try_def import_timer_def
        persistTrips_def Let_def loadTrip_now_def initial_app_def split: option.splits)

subsection \<open>The custom icon\<close>

lemma generateCustomIcon_returns:
  "\<exists>uri. generateCustomIcon analyze generate base64Image mimeType = Inr uri"
  by (cases "icon_try analyze generate base64Image mimeType")
     (simp_all add: generateCustomIcon_def)

text \<open>
  Claim C10.  \<open>generateCustomIcon\<close> always returns a string and never throws.  When
  the analysis throws or has no text, and when the generation throws or has no image,
  the string is the uploaded image as a data URI with its own mime type.
\<close>

theorem icon_never_throws:
  "(\<exists>uri. generateCustomIcon analyze generate base64Image mimeType = Inr uri)
   \<and> (analyze mimeType base64Image = Inl e \<longrightarrow>
        generateCustomIcon analyze generate base64Image mimeType
          = Inr (''data:'' @ mimeType @ '';base64,'' @ base64Image))
   \<and> (analyze mimeType base64Image = Inr None \<longrightarrow>
        generateCustomIcon analyze generate base64Image mimeType
          = Inr (''data:'' @ mimeType @ '';base64,'' @ base64Image))
   \<and> (analyze mimeType base64Image = Inr (Some subject) \<and> generate (trim subject) = Inl e \<longrightarrow>
        generateCustomIcon analyze generate base64Image mimeType
          = Inr (''data:'' @ mimeType @ '';base64,'' @ base64Image))
   \<and> (analyze mimeType base64Image = Inr (Some subject) \<and> generate (trim subject) = Inr [] \<longrightarrow>
        generateCustomIcon analyze generate base64Image mimeType
          = Inr (''data:'' @ mimeType @ '';base64,'' @ base64Image))"
  by (auto simp: generateCustomIcon_def icon_try_def first_image_uri_def
        split: sum.splits option.splits list.splits generated_image.splits)

theorem icon_never_throws_witness:
  "generateCustomIcon (\<lambda>mimeType bytes. Inl (JsError ''quota'' (Some ''RESOURCE_EXHAUSTED'') (Some 429)))
      (\<lambda>subject. Inr [Image (Some ''QUJD'')]) ''AAAA'' ''image/png''
     = Inr ''data:image/png;base64,AAAA''
   \<and> generateCustomIcon (\<lambda>mimeType bytes. Inr (Some '' Red Sports Car ''))
      (\<lambda>subject. Inl (JsError ''quota'' (Some ''RESOURCE_EXHAUSTED'') (Some 429))) ''AAAA'' ''image/png''
     = Inr ''data:image/png;base64,AAAA''
   \<and> generateCustomIcon (\<lambda>mimeType bytes. Inr None)
      (\<lambda>subject. Inr [Image (Some ''QUJD'')]) ''AAAA'' ''image/png''
     = Inr ''data:image/png;base64,AAAA''
   \<and> generateCustomIcon (\<lambda>mimeType bytes. Inr (Some '' Red Sports Car ''))
      (\<lambda>subject. Inr []) ''AAAA'' ''image/png''
     = Inr ''data:image/png;base64,AAAA''"
proof -
  let ?quota = "JsError ''quota'' (Some ''RESOURCE_EXHAUSTED'') (Some 429)"
  let ?fail = "\<lambda>mimeType bytes :: string. (Inl ?quota :: js_error + string option)"
  let ?car = "\<lambda>mimeType bytes :: string. (Inr (Some '' Red Sports Car '') :: js_error + string option)"
  let ?none = "\<lambda>mimeType bytes :: string. (Inr None :: js_error + string option)"
  let ?gen = "\<lambda>subject :: string. (Inr [Image (Some ''QUJD'')] :: js_error + generated_image list)"
  let ?genfail = "\<lambda>subject :: string. (Inl ?quota :: js_error + generated_image list)"
  let ?genempty = "\<lambda>subject :: string. (Inr [] :: js_error + generated_image list)"
  have a: "generateCustomIcon ?fail ?gen ''AAAA'' ''image/png''
             = Inr (''data:'' @ ''image/png'' @ '';base64,'' @ ''AAAA'')"
    using icon_never_throws [of ?fail ?gen "''AAAA''" "''image/png''" ?quota] by simp
  have b: "generateCustomIcon ?car ?genfail ''AAAA'' ''image/png''
             = Inr (''data:'' @ ''image/png'' @ '';base64,'' @ ''AAAA'')"
    using icon_never_throws [of ?car ?genfail "''AAAA''" "''image/png''" ?quota "'' Red Sports Car ''"]
    by simp
  have c: "generateCustomIcon ?none ?gen ''AAAA'' ''image/png''
             = Inr (''data:'' @ ''image/png'' @ '';base64,'' @ ''AAAA'')"
    using icon_never_throws [of ?none ?gen "''AAAA''" "''image/png''"] by simp
  have d: "generateCustomIcon ?car ?genempty ''AAAA'' ''image/png''
             = Inr (''data:'' @ ''image/png'' @ '';base64,'' @ ''AAAA'')"
    using icon_never_throws [of ?car ?genempty "''AAAA''" "''image/png''" _ "'' Red Sports Car ''"]
    by simp
  show ?thesis using a b c d by simp
qed

subsection \<open>The busy flags\<close>

text \<open>
  The handlers with \<open>finally\<close> reset their flag: \<open>onGenerateRoute\<close>,
  \<open>downloadSelectedStamps\<close> and \<open>generateAiStamp\<close>; so does \<open>exportMapImage\<close> in both
  callbacks of its promise, and \<open>onUploadIcon\<close> when the data URL of the file has the
  expected form.
\<close>

lemma onGenerateRoute_resets_isLoading:
  "trim (locationInput s) \<noteq> [] \<Longrightarrow> \<not> isLoading (onGenerateRoute ai gen_id rnd today s)"
  by (simp add: onGenerateRoute_def Let_def)

lemma download_loop_isExporting:
  "isExporting (case download_loop present render sel s of Inl (e, s') \<Rightarrow> s' | Inr s' \<Rightarrow> s')
     = isExporting s"
proof (induction sel arbitrary: s)
  case Nil
  show ?case by simp
next
  case (Cons stamp rest)
  show ?case
  proof (cases "present (st_id stamp)")
    case False
    then show ?thesis using Cons.IH [of s] by simp
  next
    case True
    show ?thesis
    proof (cases "render stamp")
      case (Inl e)
      then show ?thesis using True by simp
    next
      case (Inr href)
      then show ?thesis
        using True
          Cons.IH [of "s\<lparr> downloads := downloads s
                     @ [''Travel_Stamp_'' @ replace_spaces (st_name stamp) @ ''.png''] \<rparr>"]
        by simp
    qed
  qed
qed

lemma downloadSelectedStamps_resets_isExporting:
  "filter st_selected (stamps s) \<noteq> [] \<Longrightarrow>
     \<not> isExporting (downloadSelectedStamps present render s)"
  by (simp add: downloadSelectedStamps_def Let_def)

lemma generateAiStamp_resets_isGeneratingStamp:
  "editingStamp s = Some current \<Longrightarrow> stampPrompt s \<noteq> [] \<Longrightarrow>
     \<not> isGeneratingStamp (generateAiStamp paint s)"
  by (simp add: generateAiStamp_def Let_def)

lemma exportMapImage_resets_isExporting:
  "\<not> isExporting (exportMapImage True render now s)"
  by (cases render) (simp_all add: exportMapImage_def Let_def)

lemma onUploadIcon_resets_when_parsed:
  assumes "file_size file \<le> 5 * 1024 * 1024"
    and "file_read file = ReadDone base64Full"
    and "match_data_url base64Full = Some (mimeType, base64Data)"
  shows "\<not> isGeneratingIcon (onUploadIcon analyze generate (Some (file # others)) s)"
proof -
  obtain uri where "generateCustomIcon analyze generate base64Data mimeType = Inr uri"
    using generateCustomIcon_returns by blast
  then show ?thesis
    using assms by (simp add: onUploadIcon_def upload_onload_def Let_def)
qed

lemma match_no_payload1: "match_data_url ''data:image/png;base64,'' = None"
  by code_simp

lemma match_no_payload2: "match_data_url ''data:'' = None"
  by code_simp

text \<open>
  Claim C5 fails on the code.  \<open>onUploadIcon\<close> sets \<open>isGeneratingIcon\<close> and resets it at
  the end of \<open>reader.onload\<close> and in the \<open>catch\<close> around \<open>readAsDataURL\<close>.  The \<open>throw\<close>
  inside the \<open>async\<close> callback is outside that \<open>try\<close>: for a file without content,
  whose data URL has no payload, and for a file the reader cannot read, the flag stays
  set.
\<close>

theorem upload_of_empty_file_leaves_flag:
  "\<not> isGeneratingIcon initial_app
   \<and> isGeneratingIcon (onUploadIcon analyze generate
      (Some [\<lparr> file_size = 0, file_read = ReadDone ''data:image/png;base64,'' \<rparr>]) initial_app)
   \<and> isGeneratingIcon (onUploadIcon analyze generate
      (Some [\<lparr> file_size = 0, file_read = ReadDone ''data:'' \<rparr>]) initial_app)
   \<and> isGeneratingIcon (onUploadIcon analyze generate
      (Some [\<lparr> file_size = 100, file_read = ReadFails \<rparr>]) initial_app)"
  by (simp add: onUploadIcon_def upload_onload_def match_no_payload1 match_no_payload2 initial_app_def)

end
